theory Spec2Isabelle
  imports Complex_Main "HOL-Library.Word"
begin

section \<open>The media output engine of libobs (obs-output.c)\<close>

text \<open>
  The development embeds the parts of \<^verbatim>\<open>libobs/obs-output.c\<close> that pause an output,
  set its mixers, reconnect it after a disconnect, interleave encoded audio and video
  packets and add captions to the video packets. Each C function becomes a HOL function of the same name that takes the output
  (the C struct, as a record) and returns the updated one. Values that the C code reads
  from outside the output (the wall clock, the video frame interval, the result of a
  callback of the sink) are parameters.
\<close>

subsection \<open>Data\<close>

type_synonym u64 = "64 word"

text \<open>\<^verbatim>\<open>struct pause_data\<close>: all four timestamps are \<^verbatim>\<open>uint64_t\<close> nanoseconds.\<close>

record pause_data =
  ts_start :: u64
  ts_end :: u64
  ts_offset :: u64
  last_video_ts :: u64

text \<open>
  An encoder, as far as the output touches it: an identity (the C code compares encoder
  pointers), the atomic \<^verbatim>\<open>paused\<close> flag and its own pause data.
\<close>

record obs_encoder =
  encoder_id :: nat
  encoder_paused :: bool
  encoder_pause :: pause_data

text \<open>
  The capability flags of \<^verbatim>\<open>output->info.flags\<close>. The C code only tests single bits
  (\<^verbatim>\<open>(flags & OBS_OUTPUT_CAN_PAUSE) != 0\<close>), so the bit mask is a set of flags and the
  test is membership.
\<close>

datatype output_flag =
  OBS_OUTPUT_VIDEO | OBS_OUTPUT_AUDIO | OBS_OUTPUT_ENCODED | OBS_OUTPUT_SERVICE
  | OBS_OUTPUT_MULTI_TRACK | OBS_OUTPUT_CAN_PAUSE

text \<open>
  Modelled from the spec: the stop codes are defined in a header outside this file; the spec
  lists them. The C code also writes the literal 0 for \<^verbatim>\<open>OBS_OUTPUT_SUCCESS\<close>.
\<close>

datatype obs_stop_code =
  OBS_OUTPUT_SUCCESS | OBS_OUTPUT_BAD_PATH | OBS_OUTPUT_CONNECT_FAILED
  | OBS_OUTPUT_INVALID_STREAM | OBS_OUTPUT_ERROR | OBS_OUTPUT_DISCONNECTED
  | OBS_OUTPUT_UNSUPPORTED | OBS_OUTPUT_NO_SPACE | OBS_OUTPUT_ENCODE_ERROR
  | OBS_OUTPUT_HDR_DISABLED

text \<open>
  The signals an output emits on its signal handler, with the arguments that vary: the
  code of \<^verbatim>\<open>stop\<close> and the \<^verbatim>\<open>timeout_sec\<close> of \<^verbatim>\<open>reconnect\<close>.
\<close>

datatype output_signal =
  Signal string
  | Signal_stop obs_stop_code
  | Signal_reconnect nat

text \<open>
  \<^verbatim>\<open>enum obs_encoder_type\<close> and \<^verbatim>\<open>struct encoder_packet\<close>. Timestamps are \<^verbatim>\<open>int64_t\<close>
  and are modelled as unbounded integers: signed overflow is undefined in C, so the model
  describes the executions without it. \<open>encoder\<close> is the identity of the producing encoder.
  The payload bytes are not modelled; \<open>sei\<close> lists the caption messages that
  \<^verbatim>\<open>add_caption\<close> appended to the payload.
\<close>

datatype obs_encoder_type = OBS_ENCODER_AUDIO | OBS_ENCODER_VIDEO

datatype sei_message =
  Sei_cea708 "(8 word \<times> 16 word) list"
  | Sei_caption_frame string
  | Sei_empty

record encoder_packet =
  pts :: int
  dts :: int
  timebase_num :: int
  timebase_den :: int
  ptype :: obs_encoder_type
  keyframe :: bool
  dts_usec :: int
  priority :: int
  track_idx :: nat
  encoder :: nat
  sei :: "sei_message list"

text \<open>\<^verbatim>\<open>struct caption_text\<close>: one queued line and how long it is displayed, in seconds.\<close>

record caption_text =
  text_line :: string
  display_duration :: rat

text \<open>
  \<^verbatim>\<open>struct obs_output\<close>, with the fields the functions below read or write. C \<^verbatim>\<open>double\<close>
  and \<^verbatim>\<open>float\<close> values are rationals. The two manual-reset events are booleans (signalled
  or not). \<open>signals\<close> records what was emitted on the signal handler, \<open>sink_packets\<close>
  what was handed to the \<^verbatim>\<open>encoded_packet\<close> callback of the sink, and
  \<open>reconnect_scheduled\<close> the delays (in milliseconds) with which a reconnect thread was
  created; all three grow at the end. \<open>context_data\<close> tells whether \<^verbatim>\<open>context.data\<close> is
  non-null. \<open>caption_data\<close> is a byte buffer that is only ever filled and drained three
  bytes at a time, so it is a list of triples. \<open>last_caption_timestamp\<close> is the
  file-level variable of that name.
\<close>

record obs_output =
  flags :: "output_flag set"
  valid :: bool
  context_data :: bool
  active :: bool
  reconnecting :: bool
  delay_active :: bool
  delay_capturing :: bool
  data_active :: bool
  paused :: bool
  end_data_capture_thread_active :: bool
  stopping_event :: bool
  reconnect_stop_event :: bool
  reconnect_thread_active :: bool
  pause :: pause_data
  video_encoder :: "obs_encoder option"
  audio_encoders :: "obs_encoder option list"
  mixer_mask :: nat
  reconnect_retry_sec :: int
  reconnect_retry_max :: int
  reconnect_retries :: int
  reconnect_retry_cur_msec :: nat
  reconnect_retry_exp :: rat
  stop_code :: obs_stop_code
  delay_restart_refs :: int
  active_delay_ns :: nat
  signals :: "output_signal list"
  reconnect_scheduled :: "nat list"
  interleaved_packets :: "encoder_packet list"
  received_video :: bool
  received_audio :: bool
  highest_video_ts :: int
  highest_audio_ts :: int
  video_offset :: int
  audio_offsets :: "int list"
  total_frames :: int
  caption_head :: "caption_text list"
  caption_timestamp :: rat
  caption_data :: "(8 word \<times> 8 word \<times> 8 word) list"
  last_caption_timestamp :: rat
  sink_packets :: "encoder_packet list"


text \<open>
  \<^verbatim>\<open>obs_output_create\<close>, restricted to the fields above: the struct is zero-filled, the
  stopping event starts signalled, the capability flags come from the registered output
  type, and the reconnect settings get their defaults. \<open>jitter\<close> is
  \<^verbatim>\<open>rand_float(0) * 0.05f\<close>; \<open>n_mixes\<close> is the length of the \<^verbatim>\<open>audio_encoders\<close> array
  (\<^verbatim>\<open>MAX_AUDIO_MIXES\<close>, defined outside this file); \<open>created\<close> tells whether the
  \<^verbatim>\<open>create\<close> callback of the sink returned data.
\<close>

definition obs_output_create :: "output_flag set \<Rightarrow> rat \<Rightarrow> nat \<Rightarrow> bool \<Rightarrow> obs_output" where
  "obs_output_create fl jitter n_mixes created =
     \<lparr> flags = fl, valid = True, context_data = created, active = False,
       reconnecting = False, delay_active = False, delay_capturing = False,
       data_active = False, paused = False, end_data_capture_thread_active = False,
       stopping_event = True, reconnect_stop_event = False,
       reconnect_thread_active = False,
       pause = \<lparr> ts_start = 0, ts_end = 0, ts_offset = 0, last_video_ts = 0 \<rparr>,
       video_encoder = None, audio_encoders = replicate n_mixes None, mixer_mask = 0,
       reconnect_retry_sec = 2, reconnect_retry_max = 20, reconnect_retries = 0,
       reconnect_retry_cur_msec = 0, reconnect_retry_exp = 3 / 2 + jitter,
       stop_code = OBS_OUTPUT_SUCCESS, delay_restart_refs = 0, active_delay_ns = 0, signals = [],
       reconnect_scheduled = [], interleaved_packets = [], received_video = False,
       received_audio = False, highest_video_ts = 0, highest_audio_ts = 0,
       video_offset = 0, audio_offsets = replicate n_mixes 0, total_frames = 0,
       caption_head = [], caption_timestamp = 0, caption_data = [],
       last_caption_timestamp = 0, sink_packets = [] \<rparr>"

text \<open>
  Modelled from the spec: \<^verbatim>\<open>obs_output_valid\<close> is declared outside this file; the spec
  calls its failure an invalid handle. A handle is \<open>None\<close> (the null pointer) or
  \<open>Some\<close> output, and a handle is valid when it is not null.
\<close>

definition obs_output_valid :: "obs_output option \<Rightarrow> bool" where
  "obs_output_valid output = (output \<noteq> None)"

definition do_output_signal :: "obs_output \<Rightarrow> string \<Rightarrow> obs_output" where
  "do_output_signal output name = output\<lparr>signals := signals output @ [Signal name]\<rparr>"

subsection \<open>Pause\<close>

definition end_pause :: "pause_data \<Rightarrow> u64 \<Rightarrow> pause_data" where
  "end_pause p ts =
     (if ts_end p = 0
      then p\<lparr>ts_end := ts, ts_offset := ts_offset p + (ts - ts_start p)\<rparr>
      else p)"

text \<open>
  \<open>interval\<close> is \<^verbatim>\<open>obs->video.video_frame_interval_ns\<close> and \<open>now\<close> the value of
  \<^verbatim>\<open>os_gettime_ns()\<close>. The arithmetic is \<^verbatim>\<open>uint64_t\<close> and wraps. A zero interval divides
  by zero in C; here the quotient is then 0.
\<close>

definition get_closest_v_ts :: "pause_data \<Rightarrow> u64 \<Rightarrow> u64 \<Rightarrow> u64" where
  "get_closest_v_ts p interval now =
     (let i2 = interval * 2; ts = now
      in last_video_ts p + ((ts - last_video_ts p + i2) div interval) * interval)"

definition pause_can_start :: "pause_data \<Rightarrow> bool" where
  "pause_can_start p = (ts_start p = 0 \<and> ts_end p = 0)"

definition pause_can_stop :: "pause_data \<Rightarrow> bool" where
  "pause_can_stop p = (ts_start p \<noteq> 0 \<and> ts_end p = 0)"

text \<open>
  The encoded pause works on the pause data of the video encoder and of every audio
  encoder that is set. The C code dereferences the video encoder without a test; a null
  video encoder is the result \<open>None\<close>. The encoders are distinct objects.
\<close>

definition encoder_begin_pause :: "u64 \<Rightarrow> obs_encoder \<Rightarrow> obs_encoder" where
  "encoder_begin_pause closest_v_ts e =
     e\<lparr>encoder_paused := True, encoder_pause := (encoder_pause e)\<lparr>ts_start := closest_v_ts\<rparr>\<rparr>"

definition encoder_end_pause :: "u64 \<Rightarrow> obs_encoder \<Rightarrow> obs_encoder" where
  "encoder_end_pause closest_v_ts e =
     e\<lparr>encoder_paused := False, encoder_pause := end_pause (encoder_pause e) closest_v_ts\<rparr>"

definition obs_encoded_output_pause ::
  "obs_output \<Rightarrow> bool \<Rightarrow> u64 \<Rightarrow> u64 \<Rightarrow> (bool \<times> obs_output) option" where
  "obs_encoded_output_pause output pause_req interval now =
     (case video_encoder output of
        None \<Rightarrow> None
      | Some venc \<Rightarrow>
          let aenc = audio_encoders output;
              closest_v_ts = get_closest_v_ts (encoder_pause venc) interval now
          in if pause_req then
               if \<not> pause_can_start (encoder_pause venc) then Some (False, output)
               else if list_ex (\<lambda>a. case a of None \<Rightarrow> False
                                      | Some e \<Rightarrow> \<not> pause_can_start (encoder_pause e)) aenc
                 then Some (False, output)
               else Some (True, output
                      \<lparr>video_encoder := Some (encoder_begin_pause closest_v_ts venc),
                       audio_encoders := map (map_option (encoder_begin_pause closest_v_ts)) aenc\<rparr>)
             else
               if \<not> pause_can_stop (encoder_pause venc) then Some (False, output)
               else if list_ex (\<lambda>a. case a of None \<Rightarrow> False
                                      | Some e \<Rightarrow> \<not> pause_can_stop (encoder_pause e)) aenc
                 then Some (False, output)
               else Some (True, output
                      \<lparr>video_encoder := Some (encoder_end_pause closest_v_ts venc),
                       audio_encoders := map (map_option (encoder_end_pause closest_v_ts)) aenc\<rparr>))"

definition obs_raw_output_pause ::
  "obs_output \<Rightarrow> bool \<Rightarrow> u64 \<Rightarrow> u64 \<Rightarrow> bool \<times> obs_output" where
  "obs_raw_output_pause output pause_req interval now =
     (let closest_v_ts = get_closest_v_ts (pause output) interval now
      in if pause_req then
           let success = pause_can_start (pause output)
           in (success,
               if success then output\<lparr>pause := (pause output)\<lparr>ts_start := closest_v_ts\<rparr>\<rparr>
               else output)
         else
           let success = pause_can_stop (pause output)
           in (success,
               if success then output\<lparr>pause := end_pause (pause output) closest_v_ts\<rparr>
               else output))"

text \<open>
  \<^verbatim>\<open>obs_output_pause\<close>. The result is \<open>None\<close> when the encoded pause dereferences a null
  video encoder, and otherwise the returned boolean with the handle's output afterwards.
\<close>

definition obs_output_pause ::
  "obs_output option \<Rightarrow> bool \<Rightarrow> u64 \<Rightarrow> u64 \<Rightarrow> (bool \<times> obs_output option) option" where
  "obs_output_pause handle pause_req interval now =
     (if \<not> obs_output_valid handle then Some (False, handle)
      else let output = the handle
        in if OBS_OUTPUT_CAN_PAUSE \<notin> flags output then Some (False, Some output)
          else if \<not> active output then Some (False, Some output)
          else if paused output = pause_req then Some (True, Some output)
          else
            (case (if OBS_OUTPUT_ENCODED \<in> flags output
                   then obs_encoded_output_pause output pause_req interval now
                   else Some (obs_raw_output_pause output pause_req interval now)) of
               None \<Rightarrow> None
             | Some (success, output') \<Rightarrow>
                 if success
                 then Some (True, Some (do_output_signal (output'\<lparr>paused := pause_req\<rparr>)
                                          (if pause_req then ''pause'' else ''unpause'')))
                 else Some (False, Some output')))"

subsection \<open>Mixers\<close>

text \<open>\<^verbatim>\<open>mixer_mask\<close> is a \<^verbatim>\<open>size_t\<close>, taken as 64 bits wide: the shift wraps at that width.\<close>

definition obs_output_set_mixer :: "obs_output option \<Rightarrow> nat \<Rightarrow> obs_output option" where
  "obs_output_set_mixer handle mixer_idx =
     (if \<not> obs_output_valid handle then handle
      else let output = the handle
        in if \<not> active output
          then Some (output\<lparr>mixer_mask := (2 ^ mixer_idx) mod 2 ^ 64\<rparr>)
          else Some output)"

definition obs_output_set_mixers :: "obs_output option \<Rightarrow> nat \<Rightarrow> obs_output option" where
  "obs_output_set_mixers handle mixers =
     (if \<not> obs_output_valid handle then handle
      else let output = the handle
        in Some (output\<lparr>mixer_mask := mixers\<rparr>))"


subsection \<open>Ending data capture and reconnecting\<close>

text \<open>
  What the functions of this part take from outside the output: the results of the two
  \<^verbatim>\<open>pthread_create\<close> calls, and \<^verbatim>\<open>obs_output_cleanup_delay\<close>, which is defined in another
  file and is a parameter here.
\<close>

record environment =
  end_thread_ret :: int
  reconnect_thread_ret :: int
  cleanup_delay :: "obs_output \<Rightarrow> obs_output"

definition RECONNECT_RETRY_MAX_MSEC :: nat where
  "RECONNECT_RETRY_MAX_MSEC = 15 * 60 * 1000"

definition signal_stop :: "obs_output \<Rightarrow> obs_output" where
  "signal_stop output = output\<lparr>signals := signals output @ [Signal_stop (stop_code output)]\<rparr>"

definition signal_reconnect :: "obs_output \<Rightarrow> obs_output" where
  "signal_reconnect output =
     output\<lparr>signals := signals output @ [Signal_reconnect (reconnect_retry_cur_msec output div 1000)]\<rparr>"

text \<open>
  The body of the thread that tears the capture down. Stopping the encoders and
  deactivating the service change nothing that is modelled.
\<close>

definition end_data_capture_thread :: "environment \<Rightarrow> obs_output \<Rightarrow> obs_output" where
  "end_data_capture_thread env output =
     (let output = (if active_delay_ns output \<noteq> 0 then cleanup_delay env output else output);
          output = do_output_signal output ''deactivate''
      in output\<lparr>active := False, stopping_event := True,
                end_data_capture_thread_active := False\<rparr>)"

text \<open>
  \<^verbatim>\<open>pthread_join\<close> on a teardown thread that has not finished lets it finish first: its body
  runs at the join. When \<^verbatim>\<open>pthread_create\<close> succeeds the new thread runs later, as a step
  of its own.
\<close>

definition obs_output_end_data_capture_internal ::
  "environment \<Rightarrow> obs_output \<Rightarrow> bool \<Rightarrow> obs_output" where
  "obs_output_end_data_capture_internal env output sig =
     (if \<not> obs_output_valid (Some output) then output
      else if \<not> active output \<or> \<not> data_active output then
        (if sig
         then (signal_stop output)\<lparr>stop_code := OBS_OUTPUT_SUCCESS, stopping_event := True\<rparr>
         else output)
      else if delay_active output \<and> delay_restart_refs output \<noteq> 0 then
        output\<lparr>delay_capturing := False, stopping_event := True\<rparr>
      else
        let output = (if delay_active output
                      then output\<lparr>delay_capturing := False, delay_active := False\<rparr>
                      else output);
            output = output\<lparr>data_active := False\<rparr>;
            output = (if end_data_capture_thread_active output
                      then end_data_capture_thread env output else output);
            output = output\<lparr>end_data_capture_thread_active := True\<rparr>;
            output = (if end_thread_ret env \<noteq> 0
                      then end_data_capture_thread env output else output)
        in if sig then (signal_stop output)\<lparr>stop_code := OBS_OUTPUT_SUCCESS\<rparr> else output)"

definition obs_output_end_data_capture :: "environment \<Rightarrow> obs_output \<Rightarrow> obs_output" where
  "obs_output_end_data_capture env output = obs_output_end_data_capture_internal env output True"

text \<open>
  \<^verbatim>\<open>reconnect_retry_cur_msec\<close> is a \<^verbatim>\<open>uint32_t\<close> and \<^verbatim>\<open>reconnect_retry_exp\<close> a \<^verbatim>\<open>float\<close>. The
  product is taken in the rationals and truncated, which is what the C code computes
  whenever the product is a \<^verbatim>\<open>float\<close> (as for the factor 1.5 and delays of up to 15
  minutes). A reconnect thread exists when \<^verbatim>\<open>pthread_create\<close> returned 0; the C code tests
  \<^verbatim>\<open>ret < 0\<close>.
\<close>

definition output_reconnect :: "environment \<Rightarrow> obs_output \<Rightarrow> obs_output" where
  "output_reconnect env output0 =
     (let output = (if \<not> reconnecting output0
                    then output0\<lparr>reconnect_retry_cur_msec :=
                                    nat ((reconnect_retry_sec output0 * 1000) mod 2 ^ 32),
                                  reconnect_retries := 0\<rparr>
                    else output0)
      in if reconnect_retries output \<ge> reconnect_retry_max output then
           let output = output\<lparr>stop_code := OBS_OUTPUT_DISCONNECTED, reconnecting := False\<rparr>;
               output = (if delay_active output then output\<lparr>delay_active := False\<rparr>
                         else output)
           in obs_output_end_data_capture env output
         else
           let output = (if \<not> reconnecting output
                         then output\<lparr>reconnecting := True, reconnect_stop_event := False\<rparr>
                         else output);
               output = (if reconnect_retries output \<noteq> 0 then
                           let cur = nat \<lfloor>of_nat (reconnect_retry_cur_msec output)
                                          * reconnect_retry_exp output\<rfloor>
                           in output\<lparr>reconnect_retry_cur_msec :=
                                       (if cur > RECONNECT_RETRY_MAX_MSEC
                                        then RECONNECT_RETRY_MAX_MSEC else cur)\<rparr>
                         else output);
               output = output\<lparr>reconnect_retries := reconnect_retries output + 1,
                               stop_code := OBS_OUTPUT_DISCONNECTED\<rparr>;
               output = (if reconnect_thread_ret env = 0
                         then output\<lparr>reconnect_scheduled :=
                                reconnect_scheduled output @ [reconnect_retry_cur_msec output]\<rparr>
                         else output)
           in if reconnect_thread_ret env < 0 then output\<lparr>reconnecting := False\<rparr>
              else signal_reconnect output)"

definition can_reconnect :: "obs_output \<Rightarrow> obs_stop_code \<Rightarrow> bool" where
  "can_reconnect output code =
     (let reconnect_active = (reconnect_retry_max output \<noteq> 0)
      in (reconnecting output \<and> code \<noteq> OBS_OUTPUT_SUCCESS)
         \<or> (reconnect_active \<and> code = OBS_OUTPUT_DISCONNECTED))"

definition obs_output_signal_stop ::
  "environment \<Rightarrow> obs_output option \<Rightarrow> obs_stop_code \<Rightarrow> obs_output option" where
  "obs_output_signal_stop env handle code =
     (if \<not> obs_output_valid handle then handle
      else
        let output = (the handle)\<lparr>stop_code := code\<rparr>
        in if can_reconnect output code then
             let output = (if delay_active output
                           then output\<lparr>delay_restart_refs := delay_restart_refs output + 1\<rparr>
                           else output);
                 output = obs_output_end_data_capture_internal env output False
             in Some (output_reconnect env output)
           else
             let output = (if delay_active output then output\<lparr>delay_active := False\<rparr>
                           else output)
             in Some (obs_output_end_data_capture env output))"

text \<open>
  \<^verbatim>\<open>obs_output_actual_start\<close> first waits for the stopping event: with the event not
  signalled the call does not return (\<open>None\<close>). \<open>start_result\<close> is what the \<^verbatim>\<open>start\<close>
  callback of the sink returns. The error message and the frame counters that the C
  function also resets are not modelled.
\<close>

definition obs_output_actual_start :: "obs_output \<Rightarrow> bool \<Rightarrow> (bool \<times> obs_output) option" where
  "obs_output_actual_start output start_result =
     (if \<not> stopping_event output then None
      else
        let output = output\<lparr>stop_code := OBS_OUTPUT_SUCCESS\<rparr>;
            success = (context_data output \<and> start_result);
            output = (if delay_restart_refs output \<noteq> 0
                      then output\<lparr>delay_restart_refs := delay_restart_refs output - 1\<rparr>
                      else output)
        in Some (success, output\<lparr>caption_timestamp := 0, caption_data := []\<rparr>))"

text \<open>
  The body of the reconnect thread. The timed wait on \<^verbatim>\<open>reconnect_stop_event\<close> times out
  exactly when the event is not signalled.
\<close>

definition reconnect_thread :: "obs_output \<Rightarrow> bool \<Rightarrow> obs_output option" where
  "reconnect_thread output0 start_result =
     (let output = output0\<lparr>reconnect_thread_active := True\<rparr>
      in case (if \<not> reconnect_stop_event output
               then map_option snd (obs_output_actual_start output start_result)
               else Some output) of
           None \<Rightarrow> None
         | Some output \<Rightarrow>
             Some ((if \<not> reconnect_stop_event output then output
                    else output\<lparr>reconnecting := False\<rparr>)
                   \<lparr>reconnect_thread_active := False\<rparr>))"

text \<open>
  A run of an output: the sink reports a stop, the teardown thread runs, or the reconnect
  thread wakes up and starts the sink again (with the given result of \<^verbatim>\<open>start\<close>).
\<close>

datatype output_event =
  Sink_signal_stop obs_stop_code
  | End_data_capture_thread_runs
  | Reconnect_thread_runs bool

fun run_event :: "environment \<Rightarrow> obs_output \<Rightarrow> output_event \<Rightarrow> obs_output option" where
  "run_event env output (Sink_signal_stop code) = obs_output_signal_stop env (Some output) code"
| "run_event env output End_data_capture_thread_runs =
     (if end_data_capture_thread_active output
      then Some (end_data_capture_thread env output) else Some output)"
| "run_event env output (Reconnect_thread_runs start_result) =
     reconnect_thread output start_result"

fun run_events :: "environment \<Rightarrow> obs_output \<Rightarrow> output_event list \<Rightarrow> obs_output option" where
  "run_events env output [] = Some output"
| "run_events env output (e # es) =
     (case run_event env output e of None \<Rightarrow> None | Some output' \<Rightarrow> run_events env output' es)"

subsection \<open>The packet interleaver\<close>

text \<open>C integer division truncates towards zero.\<close>

definition c_div :: "int \<Rightarrow> int \<Rightarrow> int" where
  "c_div a b = (if (a < 0) = (b < 0) then \<bar>a\<bar> div \<bar>b\<bar> else - (\<bar>a\<bar> div \<bar>b\<bar>))"

text \<open>
  Modelled from the spec: \<^verbatim>\<open>packet_dts_usec\<close> is defined in a header outside this file; the
  spec gives \<open>dts_usec\<close> as \<open>dts * 1e6 * num / den\<close>.
\<close>

definition packet_dts_usec :: "encoder_packet \<Rightarrow> int" where
  "packet_dts_usec p = c_div (dts p * 1000000 * timebase_num p) (timebase_den p)"

definition num_audio_mixes :: "obs_output \<Rightarrow> nat" where
  "num_audio_mixes output =
     (if OBS_OUTPUT_MULTI_TRACK \<in> flags output
      then length (takeWhile (\<lambda>e. e \<noteq> None) (audio_encoders output))
      else 1)"

text \<open>
  \<^verbatim>\<open>get_track_index\<close>: the first slot holding the encoder that produced the packet. With no
  such slot the C code asserts and, without assertions, returns 0.
\<close>

fun track_index_from :: "nat \<Rightarrow> obs_encoder option list \<Rightarrow> nat \<Rightarrow> nat" where
  "track_index_from i [] enc = 0"
| "track_index_from i (e # es) enc =
     (if map_option encoder_id e = Some enc then i else track_index_from (Suc i) es enc)"

definition get_track_index :: "obs_output \<Rightarrow> encoder_packet \<Rightarrow> nat" where
  "get_track_index output pkt = track_index_from 0 (audio_encoders output) (encoder pkt)"

definition check_received :: "obs_output \<Rightarrow> encoder_packet \<Rightarrow> obs_output" where
  "check_received output out =
     (if ptype out = OBS_ENCODER_VIDEO
      then (if \<not> received_video output then output\<lparr>received_video := True\<rparr> else output)
      else (if \<not> received_audio output then output\<lparr>received_audio := True\<rparr> else output))"

text \<open>The track index of a packet comes from \<^verbatim>\<open>get_track_index\<close> and is inside the array.\<close>

definition apply_interleaved_packet_offset :: "obs_output \<Rightarrow> encoder_packet \<Rightarrow> encoder_packet" where
  "apply_interleaved_packet_offset output out =
     (let offset = (if ptype out = OBS_ENCODER_VIDEO then video_offset output
                    else audio_offsets output ! track_idx out);
          out = out\<lparr>dts := dts out - offset, pts := pts out - offset\<rparr>
      in out\<lparr>dts_usec := packet_dts_usec out\<rparr>)"

definition has_higher_opposing_ts :: "obs_output \<Rightarrow> encoder_packet \<Rightarrow> bool" where
  "has_higher_opposing_ts output packet =
     (if ptype packet = OBS_ENCODER_VIDEO
      then highest_audio_ts output > dts_usec packet
      else highest_video_ts output > dts_usec packet)"

text \<open>
  \<^verbatim>\<open>add_caption\<close>. The raw queue is drained into one CEA-708 message; a triple is kept when
  its type bits are 0, its data word is neither the padding \<^verbatim>\<open>0x8080\<close> nor 0, and the word
  passes \<^verbatim>\<open>eia608_parity_varify\<close>, a function of the caption library that is a parameter
  here. The message is appended to the packet whatever it holds.
\<close>

fun drain_caption_data ::
  "(16 word \<Rightarrow> bool) \<Rightarrow> (8 word \<times> 8 word \<times> 8 word) list \<Rightarrow> (8 word \<times> 16 word) list" where
  "drain_caption_data parity [] = []"
| "drain_caption_data parity ((b0, b1, b2) # rest) =
     (if and b0 3 \<noteq> 0 then drain_caption_data parity rest
      else
        let captionData = push_bit 8 (ucast b1 :: 16 word) + ucast b2
        in if captionData = 0x8080 then drain_caption_data parity rest
           else if captionData = 0 then drain_caption_data parity rest
           else if \<not> parity captionData then drain_caption_data parity rest
           else (and b0 3, captionData) # drain_caption_data parity rest)"

definition add_caption ::
  "(16 word \<Rightarrow> bool) \<Rightarrow> obs_output \<Rightarrow> encoder_packet \<Rightarrow> bool \<times> obs_output \<times> encoder_packet" where
  "add_caption parity output out =
     (if priority out > 1 then (False, output, out)
      else if caption_data output \<noteq> [] then
        (True, output\<lparr>caption_data := []\<rparr>,
         out\<lparr>sei := sei out @ [Sei_cea708 (drain_caption_data parity (caption_data output))]\<rparr>)
      else (case caption_head output of
              c # next \<Rightarrow>
                (True, output\<lparr>caption_head := next\<rparr>,
                 out\<lparr>sei := sei out @ [Sei_caption_frame (text_line c)]\<rparr>)
            | [] \<Rightarrow> (True, output, out\<lparr>sei := sei out @ [Sei_empty]\<rparr>)))"

text \<open>
  \<^verbatim>\<open>send_interleaved\<close>. Reading the first packet of an empty buffer is undefined in C and is
  the result \<open>None\<close>. The frame timestamp is a \<^verbatim>\<open>double\<close>; a zero \<^verbatim>\<open>timebase_den\<close> makes
  it infinite in C and 0 here.
\<close>

definition frame_timestamp :: "encoder_packet \<Rightarrow> rat" where
  "frame_timestamp out = of_int (pts out * timebase_num out) / of_int (timebase_den out)"

definition send_interleaved :: "(16 word \<Rightarrow> bool) \<Rightarrow> obs_output \<Rightarrow> obs_output option" where
  "send_interleaved parity output =
     (case interleaved_packets output of
        [] \<Rightarrow> None
      | out # rest \<Rightarrow>
          if \<not> has_higher_opposing_ts output out then Some output
          else
            let output = output\<lparr>interleaved_packets := rest\<rparr>
            in if ptype out = OBS_ENCODER_VIDEO then
                 let output = output\<lparr>total_frames := total_frames output + 1\<rparr>;
                     frame_ts = frame_timestamp out;
                     (output, out) =
                       (if caption_head output \<noteq> [] \<and> caption_timestamp output \<le> frame_ts
                        then
                          let display_duration = display_duration (hd (caption_head output));
                              (added, output, out) = add_caption parity output out
                          in if added
                             then (output\<lparr>caption_timestamp := frame_ts + display_duration\<rparr>, out)
                             else (output, out)
                        else (output, out));
                     (output, out) =
                       (if caption_data output \<noteq> []
                        then
                          if last_caption_timestamp output < frame_ts
                          then
                            let output = output\<lparr>last_caption_timestamp := frame_ts\<rparr>;
                                (added, output, out) = add_caption parity output out
                            in (output, out)
                          else (output, out)
                        else (output, out))
                 in Some (output\<lparr>sink_packets := sink_packets output @ [out]\<rparr>)
               else Some (output\<lparr>sink_packets := sink_packets output @ [out]\<rparr>))"

definition set_higher_ts :: "obs_output \<Rightarrow> encoder_packet \<Rightarrow> obs_output" where
  "set_higher_ts output packet =
     (if ptype packet = OBS_ENCODER_VIDEO
      then (if highest_video_ts output < dts_usec packet
            then output\<lparr>highest_video_ts := dts_usec packet\<rparr> else output)
      else (if highest_audio_ts output < dts_usec packet
            then output\<lparr>highest_audio_ts := dts_usec packet\<rparr> else output))"

text \<open>
  \<^verbatim>\<open>find_first_packet_type_idx\<close> and \<^verbatim>\<open>find_last_packet_type_idx\<close> return the index as an
  \<^verbatim>\<open>int\<close>, or -1. The track is compared for audio only.
\<close>

definition packet_type_match :: "obs_encoder_type \<Rightarrow> nat \<Rightarrow> encoder_packet \<Rightarrow> bool" where
  "packet_type_match type audio_idx packet =
     (ptype packet = type \<and> \<not> (type = OBS_ENCODER_AUDIO \<and> track_idx packet \<noteq> audio_idx))"

fun first_packet_from :: "nat \<Rightarrow> encoder_packet list \<Rightarrow> obs_encoder_type \<Rightarrow> nat \<Rightarrow> int" where
  "first_packet_from i [] type audio_idx = - 1"
| "first_packet_from i (packet # rest) type audio_idx =
     (if packet_type_match type audio_idx packet then int i
      else first_packet_from (Suc i) rest type audio_idx)"

definition find_first_packet_type_idx :: "obs_output \<Rightarrow> obs_encoder_type \<Rightarrow> nat \<Rightarrow> int" where
  "find_first_packet_type_idx output type audio_idx =
     first_packet_from 0 (interleaved_packets output) type audio_idx"

fun last_packet_below :: "nat \<Rightarrow> encoder_packet list \<Rightarrow> obs_encoder_type \<Rightarrow> nat \<Rightarrow> int" where
  "last_packet_below 0 packets type audio_idx = - 1"
| "last_packet_below (Suc j) packets type audio_idx =
     (if packet_type_match type audio_idx (packets ! j) then int j
      else last_packet_below j packets type audio_idx)"

definition find_last_packet_type_idx :: "obs_output \<Rightarrow> obs_encoder_type \<Rightarrow> nat \<Rightarrow> int" where
  "find_last_packet_type_idx output type audio_idx =
     last_packet_below (length (interleaved_packets output)) (interleaved_packets output)
       type audio_idx"

text \<open>The two functions that return a pointer to the packet, or null (\<open>None\<close>).\<close>

definition find_first_packet_type ::
  "obs_output \<Rightarrow> obs_encoder_type \<Rightarrow> nat \<Rightarrow> encoder_packet option" where
  "find_first_packet_type output type audio_idx =
     (let idx = find_first_packet_type_idx output type audio_idx
      in if idx \<noteq> - 1 then Some (interleaved_packets output ! nat idx) else None)"

definition find_last_packet_type ::
  "obs_output \<Rightarrow> obs_encoder_type \<Rightarrow> nat \<Rightarrow> encoder_packet option" where
  "find_last_packet_type output type audio_idx =
     (let idx = find_last_packet_type_idx output type audio_idx
      in if idx \<noteq> - 1 then Some (interleaved_packets output ! nat idx) else None)"

text \<open>
  \<^verbatim>\<open>get_interleaved_start_idx\<close>. The loop carries \<open>(closest_diff, video_idx, idx)\<close>;
  \<open>video_idx\<close> is \<open>None\<close> while it is \<^verbatim>\<open>DARRAY_INVALID\<close>, the largest \<^verbatim>\<open>size_t\<close>, which is
  below no index. \<^verbatim>\<open>packet == first_video\<close> compares pointers, that is, positions. An audio
  packet in a buffer without video makes the C code read through a null pointer: the
  result is \<open>None\<close>.
\<close>

fun start_idx_loop ::
  "nat \<Rightarrow> encoder_packet list \<Rightarrow> int \<Rightarrow> encoder_packet option
     \<Rightarrow> int \<times> nat option \<times> nat \<Rightarrow> (int \<times> nat option \<times> nat) option" where
  "start_idx_loop i [] first_video_idx first_video st = Some st"
| "start_idx_loop i (packet # rest) first_video_idx first_video (closest_diff, video_idx, idx) =
     (if ptype packet \<noteq> OBS_ENCODER_AUDIO then
        start_idx_loop (Suc i) rest first_video_idx first_video
          (closest_diff, (if int i = first_video_idx then Some i else video_idx), idx)
      else
        (case first_video of
           None \<Rightarrow> None
         | Some fv \<Rightarrow>
             let diff = \<bar>dts_usec packet - dts_usec fv\<bar>
             in if diff < closest_diff
                then start_idx_loop (Suc i) rest first_video_idx first_video (diff, video_idx, i)
                else start_idx_loop (Suc i) rest first_video_idx first_video
                       (closest_diff, video_idx, idx)))"

definition get_interleaved_start_idx :: "obs_output \<Rightarrow> nat option" where
  "get_interleaved_start_idx output =
     (case start_idx_loop 0 (interleaved_packets output)
              (find_first_packet_type_idx output OBS_ENCODER_VIDEO 0)
              (find_first_packet_type output OBS_ENCODER_VIDEO 0)
              (0x7FFFFFFFFFFFFFFF, None, 0) of
        None \<Rightarrow> None
      | Some (closest_diff, video_idx, idx) \<Rightarrow>
          (case video_idx of
             None \<Rightarrow> Some idx
           | Some v \<Rightarrow> Some (if v < idx then v else idx)))"

text \<open>
  \<^verbatim>\<open>prune_premature_packets\<close>. The loop over the audio tracks carries
  \<open>(max_idx, max_diff, diff)\<close> and stops with \<open>None\<close> at a track without a packet. The
  returned value compares \<open>diff\<close>, the difference of the last track, with the frame duration.
\<close>

fun premature_loop ::
  "obs_output \<Rightarrow> encoder_packet \<Rightarrow> nat list \<Rightarrow> int \<times> int \<times> int \<Rightarrow> (int \<times> int \<times> int) option" where
  "premature_loop output video [] st = Some st"
| "premature_loop output video (i # tracks) (max_idx, max_diff, diff) =
     (let audio_idx = find_first_packet_type_idx output OBS_ENCODER_AUDIO i
      in if audio_idx = - 1 then None
         else
           let audio = interleaved_packets output ! nat audio_idx;
               max_idx = (if audio_idx > max_idx then audio_idx else max_idx);
               diff = dts_usec audio - dts_usec video;
               max_diff = (if diff > max_diff then diff else max_diff)
           in premature_loop output video tracks (max_idx, max_diff, diff))"

definition prune_premature_packets :: "obs_output \<Rightarrow> int \<times> obs_output" where
  "prune_premature_packets output =
     (let audio_mixes = num_audio_mixes output;
          video_idx = find_first_packet_type_idx output OBS_ENCODER_VIDEO 0
      in if video_idx = - 1 then (- 1, output\<lparr>received_video := False\<rparr>)
         else
           let video = interleaved_packets output ! nat video_idx;
               duration_usec = c_div (timebase_num video * 1000000) (timebase_den video)
           in case premature_loop output video [0 ..< audio_mixes] (video_idx, 0, 0) of
                None \<Rightarrow> (- 1, output\<lparr>received_audio := False\<rparr>)
              | Some (max_idx, max_diff, diff) \<Rightarrow>
                  (if diff > duration_usec then max_idx + 1 else 0, output))"

definition discard_to_idx :: "obs_output \<Rightarrow> nat \<Rightarrow> obs_output" where
  "discard_to_idx output idx =
     output\<lparr>interleaved_packets := drop idx (interleaved_packets output)\<rparr>"

definition prune_interleaved_packets :: "obs_output \<Rightarrow> (bool \<times> obs_output) option" where
  "prune_interleaved_packets output0 =
     (let (prune_start, output) = prune_premature_packets output0
      in if prune_start = - 1 then Some (False, output)
         else
           (case (if prune_start \<noteq> 0 then Some (nat prune_start)
                  else get_interleaved_start_idx output) of
              None \<Rightarrow> None
            | Some start_idx \<Rightarrow>
                Some (True, if start_idx \<noteq> 0 then discard_to_idx output start_idx else output)))"

text \<open>
  \<^verbatim>\<open>get_audio_and_video_packets\<close> returns the first video packet and the first packet of
  every audio track, or fails and clears the flag of what is missing.
\<close>

fun first_audio_packets :: "obs_output \<Rightarrow> nat list \<Rightarrow> encoder_packet list option" where
  "first_audio_packets output [] = Some []"
| "first_audio_packets output (i # tracks) =
     (case find_first_packet_type output OBS_ENCODER_AUDIO i of
        None \<Rightarrow> None
      | Some a \<Rightarrow> map_option ((#) a) (first_audio_packets output tracks))"

definition get_audio_and_video_packets ::
  "obs_output \<Rightarrow> nat \<Rightarrow> obs_output \<times> (encoder_packet \<times> encoder_packet list) option" where
  "get_audio_and_video_packets output0 audio_mixes =
     (let video = find_first_packet_type output0 OBS_ENCODER_VIDEO 0;
          output = (if video = None then output0\<lparr>received_video := False\<rparr> else output0)
      in case first_audio_packets output [0 ..< audio_mixes] of
           None \<Rightarrow> (output\<lparr>received_audio := False\<rparr>, None)
         | Some audio \<Rightarrow>
             (case video of
                None \<Rightarrow> (output, None)
              | Some v \<Rightarrow> (output, Some (v, audio))))"

text \<open>
  \<^verbatim>\<open>initialize_interleaved_packets\<close>. The last packet of a track exists when its first one
  does. The new offsets are the \<open>pts\<close> of the first video packet and the \<open>dts\<close> of the
  first packet of each track; the high-water marks are lowered by the \<open>dts_usec\<close> of the
  first video packet and of the first packet of track 0.
\<close>

definition set_audio_offsets :: "int list \<Rightarrow> encoder_packet list \<Rightarrow> int list" where
  "set_audio_offsets offsets audio =
     map dts (take (length offsets) audio) @ drop (length audio) offsets"

definition initialize_interleaved_packets :: "obs_output \<Rightarrow> (bool \<times> obs_output) option" where
  "initialize_interleaved_packets output0 =
     (let audio_mixes = num_audio_mixes output0
      in case get_audio_and_video_packets output0 audio_mixes of
           (output, None) \<Rightarrow> Some (False, output)
         | (output, Some (video, audio)) \<Rightarrow>
             if list_ex
                  (\<lambda>i. case find_last_packet_type output OBS_ENCODER_AUDIO i of
                         None \<Rightarrow> False
                       | Some last_audio \<Rightarrow> dts_usec last_audio < dts_usec video)
                  [0 ..< audio_mixes]
             then Some (False, output\<lparr>received_audio := False\<rparr>)
             else
               (case get_interleaved_start_idx output of
                  None \<Rightarrow> None
                | Some start_idx \<Rightarrow>
                    (case (if start_idx \<noteq> 0
                           then get_audio_and_video_packets (discard_to_idx output start_idx)
                                  audio_mixes
                           else (output, Some (video, audio))) of
                       (output, None) \<Rightarrow> Some (False, output)
                     | (output, Some (video, audio)) \<Rightarrow>
                         let output = output\<lparr>video_offset := pts video,
                                 audio_offsets := set_audio_offsets (audio_offsets output) audio\<rparr>;
                             output = (if audio_mixes > 0
                                       then output\<lparr>highest_audio_ts :=
                                              highest_audio_ts output - dts_usec (hd audio)\<rparr>
                                       else output);
                             output = output\<lparr>highest_video_ts :=
                                         highest_video_ts output - dts_usec video\<rparr>
                         in Some (True, output\<lparr>interleaved_packets :=
                                    map (apply_interleaved_packet_offset output)
                                      (interleaved_packets output)\<rparr>))))"

text \<open>
  \<^verbatim>\<open>insert_interleaved_packet\<close>: the loop stops at the first packet with a greater \<open>dts_usec\<close>,
  or with an equal one when the new packet is video.
\<close>

fun insert_idx :: "encoder_packet \<Rightarrow> encoder_packet list \<Rightarrow> nat" where
  "insert_idx out [] = 0"
| "insert_idx out (cur_packet # rest) =
     (if dts_usec out = dts_usec cur_packet \<and> ptype out = OBS_ENCODER_VIDEO then 0
      else if dts_usec out < dts_usec cur_packet then 0
      else Suc (insert_idx out rest))"

definition da_insert :: "'a list \<Rightarrow> nat \<Rightarrow> 'a \<Rightarrow> 'a list" where
  "da_insert array idx item = take idx array @ [item] @ drop idx array"

definition insert_interleaved_packet :: "obs_output \<Rightarrow> encoder_packet \<Rightarrow> obs_output" where
  "insert_interleaved_packet output out =
     output\<lparr>interleaved_packets :=
       da_insert (interleaved_packets output) (insert_idx out (interleaved_packets output)) out\<rparr>"

definition resort_interleaved_packets :: "obs_output \<Rightarrow> obs_output" where
  "resort_interleaved_packets output =
     fold (\<lambda>packet output. insert_interleaved_packet output packet)
       (interleaved_packets output) (output\<lparr>interleaved_packets := []\<rparr>)"

definition discard_unused_audio_packets :: "obs_output \<Rightarrow> int \<Rightarrow> obs_output" where
  "discard_unused_audio_packets output d =
     (let idx = length (takeWhile (\<lambda>p. \<not> dts_usec p \<ge> d) (interleaved_packets output))
      in if idx \<noteq> 0 then discard_to_idx output idx else output)"

text \<open>
  \<^verbatim>\<open>interleave_packets\<close>, the callback of the encoders. Whether the delay is active only
  decides who owns the packet's memory.
\<close>

definition interleave_packets ::
  "(16 word \<Rightarrow> bool) \<Rightarrow> obs_output \<Rightarrow> encoder_packet \<Rightarrow> obs_output option" where
  "interleave_packets parity output0 packet0 =
     (if \<not> active output0 then Some output0
      else
        let packet = (if ptype packet0 = OBS_ENCODER_AUDIO
                      then packet0\<lparr>track_idx := get_track_index output0 packet0\<rparr>
                      else packet0)
        in if \<not> received_video output0 \<and> ptype packet = OBS_ENCODER_VIDEO \<and> \<not> keyframe packet
           then Some (discard_unused_audio_packets output0 (dts_usec packet))
           else
             let was_started = (received_audio output0 \<and> received_video output0);
                 out = (if was_started then apply_interleaved_packet_offset output0 packet
                        else packet);
                 output = (if was_started then output0 else check_received output0 packet);
                 output = insert_interleaved_packet output out;
                 output = set_higher_ts output out
             in if received_audio output \<and> received_video output then
                  if \<not> was_started then
                    (case prune_interleaved_packets output of
                       None \<Rightarrow> None
                     | Some (False, output) \<Rightarrow> Some output
                     | Some (True, output) \<Rightarrow>
                         (case initialize_interleaved_packets output of
                            None \<Rightarrow> None
                          | Some (False, output) \<Rightarrow> Some output
                          | Some (True, output) \<Rightarrow>
                              send_interleaved parity (resort_interleaved_packets output)))
                  else send_interleaved parity output
                else Some output)"

text \<open>Feeding a list of packets to the callback, one after the other.\<close>

fun interleave_all ::
  "(16 word \<Rightarrow> bool) \<Rightarrow> obs_output \<Rightarrow> encoder_packet list \<Rightarrow> obs_output option" where
  "interleave_all parity output [] = Some output"
| "interleave_all parity output (p # ps) =
     (case interleave_packets parity output p of
        None \<Rightarrow> None
      | Some output' \<Rightarrow> interleave_all parity output' ps)"

subsection \<open>Queueing caption text\<close>

text \<open>
  \<^verbatim>\<open>caption_text_new\<close> appends a line to the queue, cut to \<^verbatim>\<open>CAPTION_LINE_BYTES\<close> bytes; the
  constant is defined outside this file and is the parameter \<open>line_bytes\<close>.
\<close>

definition obs_output_output_caption_text2 ::
  "nat \<Rightarrow> obs_output option \<Rightarrow> string \<Rightarrow> rat \<Rightarrow> obs_output option" where
  "obs_output_output_caption_text2 line_bytes handle text duration =
     (if \<not> obs_output_valid handle then handle
      else let output = the handle
        in if \<not> active output then Some output
           else Some (output\<lparr>caption_head := caption_head output
                        @ [\<lparr>text_line = take line_bytes text, display_duration = duration\<rparr>]\<rparr>))"

definition obs_output_output_caption_text1 ::
  "nat \<Rightarrow> obs_output option \<Rightarrow> string \<Rightarrow> obs_output option" where
  "obs_output_output_caption_text1 line_bytes handle text =
     (if \<not> obs_output_valid handle then handle
      else obs_output_output_caption_text2 line_bytes handle text 2)"

subsection \<open>A notion for stating the properties of the interleaver\<close>


subsection \<open>The outputs of the scenarios\<close>

text \<open>S4: a raw output whose last video frame was at 1 000 000 000 ns.\<close>

definition S4_output :: obs_output where
  "S4_output = (obs_output_create {OBS_OUTPUT_VIDEO, OBS_OUTPUT_CAN_PAUSE} 0 6 True)
     \<lparr>active := True,
      pause := \<lparr>ts_start = 0, ts_end = 0, ts_offset = 0, last_video_ts = 1000000000\<rparr>\<rparr>"

text \<open>S5: a streaming output that is capturing, with three retries, two seconds apart at first.\<close>

definition S5_output :: obs_output where
  "S5_output =
     (obs_output_create {OBS_OUTPUT_VIDEO, OBS_OUTPUT_AUDIO, OBS_OUTPUT_ENCODED, OBS_OUTPUT_SERVICE}
        0 6 True)
     \<lparr>active := True, data_active := True, reconnect_retry_sec := 2, reconnect_retry_max := 3\<rparr>"

definition S5_events :: "output_event list" where
  "S5_events =
     [Sink_signal_stop OBS_OUTPUT_DISCONNECTED, End_data_capture_thread_runs,
      Reconnect_thread_runs True,
      Sink_signal_stop OBS_OUTPUT_DISCONNECTED, Reconnect_thread_runs True,
      Sink_signal_stop OBS_OUTPUT_DISCONNECTED, Reconnect_thread_runs True,
      Sink_signal_stop OBS_OUTPUT_DISCONNECTED]"

text \<open>
  The output of S5 in the middle of reconnecting, one retry done, with a last delay of
  800000 ms.
\<close>

definition long_wait_output :: obs_output where
  "long_wait_output =
     S5_output\<lparr>reconnecting := True, reconnect_retries := 1,
               reconnect_retry_cur_msec := 800000\<rparr>"

text \<open>An active output with mixer 0 selected, and an active pausable output that is paused.\<close>

definition mixer_output :: obs_output where
  "mixer_output = (obs_output_create {OBS_OUTPUT_AUDIO, OBS_OUTPUT_MULTI_TRACK} 0 6 True)
     \<lparr>active := True, data_active := True, mixer_mask := 1\<rparr>"

definition paused_output :: obs_output where
  "paused_output = (obs_output_create {OBS_OUTPUT_VIDEO, OBS_OUTPUT_CAN_PAUSE} 0 6 True)
     \<lparr>active := True, paused := True\<rparr>"


text \<open>Both threads are created, and the delay clean-up (never reached without a delay) changes nothing.\<close>

definition plain_environment :: environment where
  "plain_environment = \<lparr>end_thread_ret = 0, reconnect_thread_ret = 0, cleanup_delay = id\<rparr>"

subsection \<open>The outputs and packets of the interleaver scenarios\<close>

text \<open>
  A packet as an encoder delivers it (\<open>pts = dts\<close>, \<open>dts_usec\<close> derived), an encoder that has
  never paused, and an active encoded multi-track output with video encoder 0 and the audio
  encoders 1 to \<open>n\<close>. \<open>accept_all\<close> stands for the parity check in scenarios without raw
  caption data.
\<close>

definition av_packet :: "obs_encoder_type \<Rightarrow> nat \<Rightarrow> int \<Rightarrow> int \<Rightarrow> int \<Rightarrow> encoder_packet" where
  "av_packet type enc num den ts =
     (let p = \<lparr>pts = ts, dts = ts, timebase_num = num, timebase_den = den, ptype = type,
                keyframe = True, dts_usec = 0, priority = 0, track_idx = 0, encoder = enc,
                sei = []\<rparr>
      in p\<lparr>dts_usec := packet_dts_usec p\<rparr>)"

definition fresh_encoder :: "nat \<Rightarrow> obs_encoder" where
  "fresh_encoder i =
     \<lparr>encoder_id = i, encoder_paused = False,
      encoder_pause = \<lparr>ts_start = 0, ts_end = 0, ts_offset = 0, last_video_ts = 0\<rparr>\<rparr>"

definition stream_output :: "nat \<Rightarrow> obs_output" where
  "stream_output n =
     (obs_output_create
        {OBS_OUTPUT_VIDEO, OBS_OUTPUT_AUDIO, OBS_OUTPUT_ENCODED, OBS_OUTPUT_MULTI_TRACK} 0 6 True)
     \<lparr>active := True, data_active := True, video_encoder := Some (fresh_encoder 0),
      audio_encoders := map (\<lambda>i. Some (fresh_encoder (Suc i))) [0 ..< n] @ replicate (6 - n) None\<rparr>"

definition accept_all :: "16 word \<Rightarrow> bool" where
  "accept_all w = True"

text \<open>
  Two audio tracks, all timestamps in milliseconds. Every encoder delivers increasing
  timestamps; the second audio track is late with its packet at 50 ms.
\<close>

definition late_track_arrivals :: "encoder_packet list" where
  "late_track_arrivals =
     [av_packet OBS_ENCODER_VIDEO 0 1 1000 0, av_packet OBS_ENCODER_AUDIO 1 1 1000 0,
      av_packet OBS_ENCODER_AUDIO 2 1 1000 0, av_packet OBS_ENCODER_AUDIO 1 1 1000 150,
      av_packet OBS_ENCODER_VIDEO 0 1 1000 100, av_packet OBS_ENCODER_AUDIO 1 1 1000 160,
      av_packet OBS_ENCODER_AUDIO 1 1 1000 170, av_packet OBS_ENCODER_AUDIO 2 1 1000 50]"


text \<open>
  S2: one audio track with packets at -200000, -100000 and 0 microseconds (time base
  1/1000) and video at 0 and 33333 (time base 1/30), at the moment of pruning: in the order
  the scenario gives (first video packet at index 3), and in the order in which
  \<^verbatim>\<open>insert_interleaved_packet\<close> leaves them. \<open>S2_arrivals\<close> is an order of arrival that leads
  to the latter.
\<close>

definition S2_packets :: "encoder_packet list" where
  "S2_packets =
     [av_packet OBS_ENCODER_AUDIO 1 1 1000 (- 200), av_packet OBS_ENCODER_AUDIO 1 1 1000 (- 100),
      av_packet OBS_ENCODER_AUDIO 1 1 1000 0, av_packet OBS_ENCODER_VIDEO 0 1 30 0,
      av_packet OBS_ENCODER_VIDEO 0 1 30 1]"

definition S2_output_as_listed :: obs_output where
  "S2_output_as_listed =
     (stream_output 1)\<lparr>received_video := True, received_audio := True,
        highest_video_ts := 33333, highest_audio_ts := 0, interleaved_packets := S2_packets\<rparr>"

definition S2_output_as_inserted :: obs_output where
  "S2_output_as_inserted = resort_interleaved_packets S2_output_as_listed"

definition S2_arrivals :: "encoder_packet list" where
  "S2_arrivals =
     [av_packet OBS_ENCODER_VIDEO 0 1 30 0, av_packet OBS_ENCODER_VIDEO 0 1 30 1,
      av_packet OBS_ENCODER_AUDIO 1 1 1000 (- 200), av_packet OBS_ENCODER_AUDIO 1 1 1000 (- 100),
      av_packet OBS_ENCODER_AUDIO 1 1 1000 0]"

text \<open>
  Two audio tracks at the moment of pruning: the first video packet and the first packet of
  track 1 are at 0, the first packet of track 0 is at 100000 microseconds, three video
  frames (of 33333 microseconds) later. \<open>late_first_track_arrivals\<close> are the packets in the
  order in which they arrive.
\<close>

definition late_first_track_arrivals :: "encoder_packet list" where
  "late_first_track_arrivals =
     [av_packet OBS_ENCODER_VIDEO 0 1 30 0, av_packet OBS_ENCODER_AUDIO 2 1 1000 0,
      av_packet OBS_ENCODER_AUDIO 1 1 1000 100]"

definition late_first_track_output :: obs_output where
  "late_first_track_output =
     (stream_output 2)\<lparr>received_video := True, received_audio := True,
        highest_video_ts := 0, highest_audio_ts := 100000,
        interleaved_packets :=
          [av_packet OBS_ENCODER_VIDEO 0 1 30 0,
           (av_packet OBS_ENCODER_AUDIO 2 1 1000 0)\<lparr>track_idx := 1\<rparr>,
           av_packet OBS_ENCODER_AUDIO 1 1 1000 100]\<rparr>"

text \<open>
  S6: a steady output whose buffer holds the video frames with timestamps 10, 10.5, 11 and
  12 seconds (time base 1/2) below the audio mark, after the texts HELLO and WORLD were
  queued for 2 seconds each. \<open>send_times\<close> calls \<^verbatim>\<open>send_interleaved\<close> repeatedly.
\<close>

definition text_of :: "sei_message \<Rightarrow> string list" where
  "text_of m = (case m of Sei_caption_frame t \<Rightarrow> [t] | _ \<Rightarrow> [])"

definition text_captions :: "encoder_packet \<Rightarrow> string list" where
  "text_captions p = concat (map text_of (sei p))"

fun send_times :: "(16 word \<Rightarrow> bool) \<Rightarrow> nat \<Rightarrow> obs_output \<Rightarrow> obs_output option" where
  "send_times parity 0 output = Some output"
| "send_times parity (Suc n) output =
     (case send_interleaved parity output of
        None \<Rightarrow> None
      | Some output' \<Rightarrow> send_times parity n output')"

definition S6_output :: obs_output where
  "S6_output =
     the (obs_output_output_caption_text2 128
            (obs_output_output_caption_text2 128
               (Some ((stream_output 1)\<lparr>received_video := True, received_audio := True,
                        highest_video_ts := 12000000, highest_audio_ts := 20000000,
                        interleaved_packets :=
                          [av_packet OBS_ENCODER_VIDEO 0 1 2 20, av_packet OBS_ENCODER_VIDEO 0 1 2 21,
                           av_packet OBS_ENCODER_VIDEO 0 1 2 22, av_packet OBS_ENCODER_VIDEO 0 1 2 24]\<rparr>))
               ''HELLO'' 2)
            ''WORLD'' 2)"

section \<open>Properties\<close>

subsection \<open>Pause\<close>

text \<open>
  C5 (as stated, refuted). In scenario S4 the raw pause does not set \<open>ts_start\<close> to
  1 066 666 666: the quotient \<open>(now - last + 2 I) div I\<close> is 3 there, not 2.
\<close>

theorem pause_S4_not_two_intervals:
  "ts_start (pause (snd (obs_raw_output_pause S4_output True 33333333 1050000000))) \<noteq> 1066666666"
  by (simp add: obs_raw_output_pause_def S4_output_def obs_output_create_def
      get_closest_v_ts_def pause_can_start_def)

text \<open>
  C5 (amended). For an output that is not paused and whose last video frame was at
  1 000 000 000 ns, with a frame interval of 33 333 333 ns, a pause requested at
  1 050 000 000 ns succeeds and sets \<open>ts_start\<close> to 1 099 999 999, which is the last video
  timestamp plus three intervals; the timestamp is
  \<open>last + ((now - last + 2 I) div I) * I\<close>.
\<close>

theorem pause_S4_three_intervals:
  assumes "ts_start (pause output) = 0" and "ts_end (pause output) = 0"
    and "last_video_ts (pause output) = 1000000000"
  shows "obs_raw_output_pause output True 33333333 1050000000 =
           (True, output\<lparr>pause := (pause output)\<lparr>ts_start := 1099999999\<rparr>\<rparr>)
         \<and> get_closest_v_ts (pause output) 33333333 1050000000 =
             last_video_ts (pause output)
             + ((1050000000 - last_video_ts (pause output) + 2 * 33333333) div 33333333) * 33333333
         \<and> (1099999999 :: u64) = 1000000000 + 3 * 33333333"
  using assms
  by (simp add: obs_raw_output_pause_def get_closest_v_ts_def pause_can_start_def)

theorem pause_S4_three_intervals_witness:
  "obs_raw_output_pause S4_output True 33333333 1050000000 =
     (True, S4_output\<lparr>pause := (pause S4_output)\<lparr>ts_start := 1099999999\<rparr>\<rparr>)"
proof -
  have a: "ts_start (pause S4_output) = 0" by (simp add: S4_output_def)
  have b: "ts_end (pause S4_output) = 0" by (simp add: S4_output_def)
  have c: "last_video_ts (pause S4_output) = 1000000000" by (simp add: S4_output_def)
  from pause_S4_three_intervals [OF a b c] show ?thesis by (rule conjunct1)
qed

text \<open>
  C10. On a valid output that can pause and is active, \<^verbatim>\<open>obs_output_pause\<close> with the value
  the \<open>paused\<close> flag already has returns true and leaves the whole output as it was (the
  pause data, the flag and the emitted signals included). On a valid output that cannot
  pause or is not active it returns false and leaves the output as it was.
\<close>

theorem obs_output_pause_no_change:
  "(OBS_OUTPUT_CAN_PAUSE \<in> flags output \<and> active output \<and> paused output = b \<longrightarrow>
      obs_output_pause (Some output) b interval now = Some (True, Some output))
   \<and> (OBS_OUTPUT_CAN_PAUSE \<notin> flags output \<or> \<not> active output \<longrightarrow>
      obs_output_pause (Some output) b interval now = Some (False, Some output))"
  by (simp add: obs_output_pause_def obs_output_valid_def)

theorem obs_output_pause_no_change_witness:
  "obs_output_pause (Some paused_output) True 33333333 1050000000 = Some (True, Some paused_output)
   \<and> obs_output_pause (Some mixer_output) True 33333333 1050000000 = Some (False, Some mixer_output)"
proof -
  have a: "OBS_OUTPUT_CAN_PAUSE \<in> flags paused_output \<and> active paused_output
           \<and> paused paused_output = True"
    by (simp add: paused_output_def obs_output_create_def)
  have b: "OBS_OUTPUT_CAN_PAUSE \<notin> flags mixer_output \<or> \<not> active mixer_output"
    by (simp add: mixer_output_def obs_output_create_def)
  from obs_output_pause_no_change [of paused_output True 33333333 1050000000] a
  have 1: "obs_output_pause (Some paused_output) True 33333333 1050000000
             = Some (True, Some paused_output)"
    by blast
  from obs_output_pause_no_change [of mixer_output True 33333333 1050000000] b
  have 2: "obs_output_pause (Some mixer_output) True 33333333 1050000000
             = Some (False, Some mixer_output)"
    by blast
  from 1 2 show ?thesis by simp
qed

subsection \<open>Mixers\<close>

text \<open>
  C9 (the code at the failing input). On an active output whose mixer mask is 1,
  \<^verbatim>\<open>obs_output_set_mixers\<close> with the mask 6 stores 6, whereas \<^verbatim>\<open>obs_output_set_mixer\<close> leaves
  the output as it was.
\<close>

theorem set_mixers_while_active:
  "active mixer_output \<and> mixer_mask mixer_output = 1
   \<and> map_option mixer_mask (obs_output_set_mixers (Some mixer_output) 6) = Some 6
   \<and> obs_output_set_mixer (Some mixer_output) 2 = Some mixer_output"
  by (simp add: mixer_output_def obs_output_create_def obs_output_set_mixers_def
      obs_output_set_mixer_def obs_output_valid_def)

subsection \<open>Reconnecting\<close>

text \<open>
  C6 (as stated, refuted). After the run of scenario S5 the field \<open>stop_code\<close> holds
  \<^verbatim>\<open>OBS_OUTPUT_SUCCESS\<close>, not \<^verbatim>\<open>OBS_OUTPUT_DISCONNECTED\<close>. And a first delay is scheduled as
  it is configured: with 1000 seconds in place of 2 it is 1000000 ms, above 15 minutes.
\<close>

theorem reconnect_S5_stop_code_reset:
  "map_option stop_code (run_events plain_environment S5_output S5_events)
     = Some OBS_OUTPUT_SUCCESS
   \<and> OBS_OUTPUT_SUCCESS \<noteq> OBS_OUTPUT_DISCONNECTED
   \<and> map_option reconnect_scheduled
        (obs_output_signal_stop plain_environment
           (Some (S5_output\<lparr>reconnect_retry_sec := 1000\<rparr>)) OBS_OUTPUT_DISCONNECTED)
      = Some [1000000]
   \<and> \<not> 1000000 \<le> RECONNECT_RETRY_MAX_MSEC"
  by (simp add: S5_events_def S5_output_def plain_environment_def obs_output_create_def
      obs_output_signal_stop_def obs_output_valid_def can_reconnect_def output_reconnect_def
      obs_output_end_data_capture_def obs_output_end_data_capture_internal_def
      end_data_capture_thread_def do_output_signal_def signal_stop_def signal_reconnect_def
      reconnect_thread_def obs_output_actual_start_def RECONNECT_RETRY_MAX_MSEC_def Let_def)

lemma reconnect_S5_run:
  "map_option reconnect_scheduled
       (run_events \<lparr>end_thread_ret = 0, reconnect_thread_ret = 0, cleanup_delay = f\<rparr>
          S5_output S5_events) = Some [2000, 3000, 4500]
   \<and> map_option signals
       (run_events \<lparr>end_thread_ret = 0, reconnect_thread_ret = 0, cleanup_delay = f\<rparr>
          S5_output S5_events) =
       Some [Signal_reconnect 2, Signal ''deactivate'', Signal_reconnect 3, Signal_reconnect 4,
             Signal_stop OBS_OUTPUT_DISCONNECTED]
   \<and> map_option reconnecting
       (run_events \<lparr>end_thread_ret = 0, reconnect_thread_ret = 0, cleanup_delay = f\<rparr>
          S5_output (butlast S5_events)) = Some True
   \<and> run_events \<lparr>end_thread_ret = 0, reconnect_thread_ret = 0, cleanup_delay = f\<rparr>
          S5_output S5_events
       = map_option
           (\<lambda>before. obs_output_end_data_capture
              \<lparr>end_thread_ret = 0, reconnect_thread_ret = 0, cleanup_delay = f\<rparr>
              (before\<lparr>stop_code := OBS_OUTPUT_DISCONNECTED, reconnecting := False\<rparr>))
           (run_events \<lparr>end_thread_ret = 0, reconnect_thread_ret = 0, cleanup_delay = f\<rparr>
              S5_output (butlast S5_events))
   \<and> map_option stop_code
       (run_events \<lparr>end_thread_ret = 0, reconnect_thread_ret = 0, cleanup_delay = f\<rparr>
          S5_output S5_events) = Some OBS_OUTPUT_SUCCESS
   \<and> map_option reconnecting
       (run_events \<lparr>end_thread_ret = 0, reconnect_thread_ret = 0, cleanup_delay = f\<rparr>
          S5_output S5_events) = Some False
   \<and> map_option data_active
       (run_events \<lparr>end_thread_ret = 0, reconnect_thread_ret = 0, cleanup_delay = f\<rparr>
          S5_output S5_events) = Some False
   \<and> map_option active
       (run_events \<lparr>end_thread_ret = 0, reconnect_thread_ret = 0, cleanup_delay = f\<rparr>
          S5_output S5_events) = Some False"
  by (simp add: S5_events_def S5_output_def obs_output_create_def
      obs_output_signal_stop_def obs_output_valid_def can_reconnect_def output_reconnect_def
      obs_output_end_data_capture_def obs_output_end_data_capture_internal_def
      end_data_capture_thread_def do_output_signal_def signal_stop_def signal_reconnect_def
      reconnect_thread_def obs_output_actual_start_def RECONNECT_RETRY_MAX_MSEC_def Let_def)

lemma output_reconnect_clamped:
  assumes "reconnecting output" and "reconnect_retries output \<noteq> 0"
    and "reconnect_retries output < reconnect_retry_max output"
  shows "reconnect_retry_cur_msec (output_reconnect env output) \<le> RECONNECT_RETRY_MAX_MSEC"
    and "reconnect_retry_cur_msec (output_reconnect env output) =
           min RECONNECT_RETRY_MAX_MSEC
             (nat \<lfloor>of_nat (reconnect_retry_cur_msec output) * reconnect_retry_exp output\<rfloor>)"
    and "reconnect_thread_ret env = 0 \<Longrightarrow>
           reconnect_scheduled (output_reconnect env output) =
             reconnect_scheduled output @ [reconnect_retry_cur_msec (output_reconnect env output)]"
  using assms by (auto simp add: output_reconnect_def Let_def signal_reconnect_def)

text \<open>
  C6 (amended). In scenario S5 (three retries, two seconds, factor 1.5) four disconnect
  notifications, with the teardown thread and the reconnect thread running in between,
  schedule reconnects after 2000, 3000 and 4500 ms. The fourth notification finds the
  output reconnecting and gives up: \<open>stop_code\<close> is set to \<^verbatim>\<open>OBS_OUTPUT_DISCONNECTED\<close>, the
  flag \<open>reconnecting\<close> is cleared and \<^verbatim>\<open>obs_output_end_data_capture\<close> runs, which emits the
  stop signal with that code and then puts the field back to \<^verbatim>\<open>OBS_OUTPUT_SUCCESS\<close>; data
  capture has ended. For every output, the delay of every retry after the first is the
  previous delay times the factor, truncated and cut at 15 minutes, so it is at most
  900000 ms, and it is the delay with which the reconnect thread is created.
\<close>

theorem reconnect_S5_backoff:
  "map_option reconnect_scheduled
       (run_events \<lparr>end_thread_ret = 0, reconnect_thread_ret = 0, cleanup_delay = f\<rparr>
          S5_output S5_events) = Some [2000, 3000, 4500]
   \<and> map_option signals
       (run_events \<lparr>end_thread_ret = 0, reconnect_thread_ret = 0, cleanup_delay = f\<rparr>
          S5_output S5_events) =
       Some [Signal_reconnect 2, Signal ''deactivate'', Signal_reconnect 3, Signal_reconnect 4,
             Signal_stop OBS_OUTPUT_DISCONNECTED]
   \<and> map_option reconnecting
       (run_events \<lparr>end_thread_ret = 0, reconnect_thread_ret = 0, cleanup_delay = f\<rparr>
          S5_output (butlast S5_events)) = Some True
   \<and> run_events \<lparr>end_thread_ret = 0, reconnect_thread_ret = 0, cleanup_delay = f\<rparr>
          S5_output S5_events
       = map_option
           (\<lambda>before. obs_output_end_data_capture
              \<lparr>end_thread_ret = 0, reconnect_thread_ret = 0, cleanup_delay = f\<rparr>
              (before\<lparr>stop_code := OBS_OUTPUT_DISCONNECTED, reconnecting := False\<rparr>))
           (run_events \<lparr>end_thread_ret = 0, reconnect_thread_ret = 0, cleanup_delay = f\<rparr>
              S5_output (butlast S5_events))
   \<and> map_option stop_code
       (run_events \<lparr>end_thread_ret = 0, reconnect_thread_ret = 0, cleanup_delay = f\<rparr>
          S5_output S5_events) = Some OBS_OUTPUT_SUCCESS
   \<and> map_option reconnecting
       (run_events \<lparr>end_thread_ret = 0, reconnect_thread_ret = 0, cleanup_delay = f\<rparr>
          S5_output S5_events) = Some False
   \<and> map_option data_active
       (run_events \<lparr>end_thread_ret = 0, reconnect_thread_ret = 0, cleanup_delay = f\<rparr>
          S5_output S5_events) = Some False
   \<and> map_option active
       (run_events \<lparr>end_thread_ret = 0, reconnect_thread_ret = 0, cleanup_delay = f\<rparr>
          S5_output S5_events) = Some False
   \<and> (reconnecting output \<and> reconnect_retries output \<noteq> 0
        \<and> reconnect_retries output < reconnect_retry_max output \<longrightarrow>
        reconnect_retry_cur_msec (output_reconnect env output) \<le> RECONNECT_RETRY_MAX_MSEC
        \<and> reconnect_retry_cur_msec (output_reconnect env output) =
             min RECONNECT_RETRY_MAX_MSEC
               (nat \<lfloor>of_nat (reconnect_retry_cur_msec output) * reconnect_retry_exp output\<rfloor>)
        \<and> (reconnect_thread_ret env = 0 \<longrightarrow>
             reconnect_scheduled (output_reconnect env output) =
               reconnect_scheduled output
               @ [reconnect_retry_cur_msec (output_reconnect env output)]))"
  using reconnect_S5_run [of f] output_reconnect_clamped [of "output" env] by blast

theorem reconnect_S5_backoff_witness:
  "reconnect_retry_cur_msec (output_reconnect plain_environment long_wait_output)
     \<le> RECONNECT_RETRY_MAX_MSEC
   \<and> reconnect_scheduled (output_reconnect plain_environment long_wait_output)
       = reconnect_scheduled long_wait_output
         @ [reconnect_retry_cur_msec (output_reconnect plain_environment long_wait_output)]
   \<and> reconnect_retry_cur_msec long_wait_output = 800000
   \<and> reconnect_retry_cur_msec (output_reconnect plain_environment long_wait_output) = 900000"
proof -
  have a: "reconnecting long_wait_output \<and> reconnect_retries long_wait_output \<noteq> 0
           \<and> reconnect_retries long_wait_output < reconnect_retry_max long_wait_output"
    by (simp add: long_wait_output_def S5_output_def obs_output_create_def)
  have b: "reconnect_thread_ret plain_environment = 0" by (simp add: plain_environment_def)
  have c: "reconnect_retry_cur_msec long_wait_output = 800000"
    by (simp add: long_wait_output_def)
  have d: "min RECONNECT_RETRY_MAX_MSEC
             (nat \<lfloor>of_nat (reconnect_retry_cur_msec long_wait_output)
                     * reconnect_retry_exp long_wait_output\<rfloor>) = 900000"
    by (simp add: long_wait_output_def S5_output_def obs_output_create_def
        RECONNECT_RETRY_MAX_MSEC_def)
  from reconnect_S5_backoff [of id long_wait_output plain_environment] a b c d
  show ?thesis by simp
qed









subsection \<open>Lemmas about the interleaver\<close>












subsection \<open>The interleaver\<close>

text \<open>
  C1 (the code at the failing input). Two audio tracks whose encoders each deliver
  increasing timestamps. After the first three packets both streams are received,
  initialization is done and nothing has been sent. The video packet at 100 ms is sent
  while the audio mark, set by track 1, is above it; track 2 then delivers its packet at
  50 ms, and it is sent although no video packet is left in the buffer, because the video
  mark still stands at 100 ms. The \<open>dts_usec\<close> handed to the sink are 0, 0, 0, 100000,
  50000, which is not a non-decreasing sequence.
\<close>

theorem late_track_not_monotone:
  "map_option received_video
     (interleave_all accept_all (stream_output 2) (take 3 late_track_arrivals)) = Some True
   \<and> map_option received_audio
     (interleave_all accept_all (stream_output 2) (take 3 late_track_arrivals)) = Some True
   \<and> map_option sink_packets
     (interleave_all accept_all (stream_output 2) (take 3 late_track_arrivals)) = Some []
   \<and> map_option (map dts_usec \<circ> sink_packets)
     (interleave_all accept_all (stream_output 2) late_track_arrivals)
       = Some [0, 0, 0, 100000, 50000]
   \<and> map_option (sorted \<circ> map dts_usec \<circ> sink_packets)
     (interleave_all accept_all (stream_output 2) late_track_arrivals) = Some False"
  by code_simp



text \<open>
  C2 (the code at the failing input). With two audio tracks whose first packets are 100000
  and 0 microseconds after the first video packet, the loop of \<^verbatim>\<open>prune_premature_packets\<close>
  ends with \<open>max_idx = 2\<close>, \<open>max_diff = 100000\<close> and \<open>diff = 0\<close>; the frame lasts 33333
  microseconds; the function returns 0 all the same and the pruning discards nothing. When
  the three packets arrive through the callback, all three stay in the buffer and track 0 is
  rebased by 100 ms against the video.
\<close>

theorem prune_premature_compares_last_diff:
  "premature_loop late_first_track_output (hd (interleaved_packets late_first_track_output))
      [0 ..< num_audio_mixes late_first_track_output] (0, 0, 0) = Some (2, 100000, 0)
   \<and> c_div (timebase_num (hd (interleaved_packets late_first_track_output)) * 1000000)
        (timebase_den (hd (interleaved_packets late_first_track_output))) = 33333
   \<and> fst (prune_premature_packets late_first_track_output) = 0
   \<and> map_option (length \<circ> interleaved_packets \<circ> snd)
        (prune_interleaved_packets late_first_track_output) = Some 3
   \<and> map_option (map dts \<circ> interleaved_packets)
        (interleave_all accept_all (stream_output 2) late_first_track_arrivals) = Some [0, 0, 0]
   \<and> map_option (take 2 \<circ> audio_offsets)
        (interleave_all accept_all (stream_output 2) late_first_track_arrivals) = Some [100, 0]"
  by code_simp

text \<open>
  C3 (as stated, refuted). On the buffer of scenario S2, with the first video packet at
  index 3, the pruning does not leave just the audio packet at 0 and the video packet at
  33333.
\<close>

theorem prune_S2_leaves_more:
  "map_option (map dts_usec \<circ> interleaved_packets \<circ> snd)
     (prune_interleaved_packets S2_output_as_listed) \<noteq> Some [0, 33333]"
  by code_simp

text \<open>
  C3 (amended). On the buffer of scenario S2 (audio at -200000, -100000 and 0, video at 0
  and 33333, first video packet at index 3) \<^verbatim>\<open>prune_premature_packets\<close> returns 0: the first
  audio packet is before the first video packet, not more than a frame after it. The start
  index is then that of the closest pair, 2, and the pruning discards the two packets
  before it, leaving the audio packet at 0 and the video packets at 0 and 33333. The same
  three packets (video first) remain when the buffer is in the order in which
  \<^verbatim>\<open>insert_interleaved_packet\<close> builds it, and when the packets arrive through the callback.
\<close>

theorem prune_S2_closest_pair:
  "map dts_usec (interleaved_packets S2_output_as_listed) = [- 200000, - 100000, 0, 0, 33333]
   \<and> find_first_packet_type_idx S2_output_as_listed OBS_ENCODER_VIDEO 0 = 3
   \<and> fst (prune_premature_packets S2_output_as_listed) = 0
   \<and> get_interleaved_start_idx S2_output_as_listed = Some 2
   \<and> map_option fst (prune_interleaved_packets S2_output_as_listed) = Some True
   \<and> map_option (map ptype \<circ> interleaved_packets \<circ> snd)
        (prune_interleaved_packets S2_output_as_listed)
       = Some [OBS_ENCODER_AUDIO, OBS_ENCODER_VIDEO, OBS_ENCODER_VIDEO]
   \<and> map_option (map dts_usec \<circ> interleaved_packets \<circ> snd)
        (prune_interleaved_packets S2_output_as_listed) = Some [0, 0, 33333]
   \<and> map ptype (interleaved_packets S2_output_as_inserted)
       = [OBS_ENCODER_AUDIO, OBS_ENCODER_AUDIO, OBS_ENCODER_VIDEO, OBS_ENCODER_AUDIO,
          OBS_ENCODER_VIDEO]
   \<and> fst (prune_premature_packets S2_output_as_inserted) = 0
   \<and> map_option (map ptype \<circ> interleaved_packets \<circ> snd)
        (prune_interleaved_packets S2_output_as_inserted)
       = Some [OBS_ENCODER_VIDEO, OBS_ENCODER_AUDIO, OBS_ENCODER_VIDEO]
   \<and> map_option (map dts_usec \<circ> interleaved_packets \<circ> snd)
        (prune_interleaved_packets S2_output_as_inserted) = Some [0, 0, 33333]
   \<and> map_option (map dts_usec \<circ> interleaved_packets)
        (interleave_all accept_all (stream_output 1) S2_arrivals) = Some [0, 0, 33333]"
  by code_simp

subsection \<open>Captions\<close>

lemma text_captions_simps:
  "text_captions (p\<lparr>sei := sei p @ [Sei_caption_frame t]\<rparr>) = text_captions p @ [t]"
  "text_captions (p\<lparr>sei := sei p @ [Sei_cea708 d]\<rparr>) = text_captions p"
  "text_captions (p\<lparr>sei := sei p @ [Sei_empty]\<rparr>) = text_captions p"
  by (simp_all add: text_captions_def text_of_def)

lemma text_caption_only_when_due:
  assumes "interleaved_packets output = x # rest"
    and "send_interleaved parity output = Some output'"
    and "sink_packets output' = sink_packets output @ [x']"
    and "text_captions x' \<noteq> text_captions x"
  shows "caption_head output \<noteq> [] \<and> caption_timestamp output \<le> frame_timestamp x
     \<and> text_captions x' = text_captions x @ [text_line (hd (caption_head output))]
     \<and> caption_timestamp output' = frame_timestamp x + display_duration (hd (caption_head output))
     \<and> caption_head output' = tl (caption_head output)"
  using assms
  by (auto simp add: send_interleaved_def add_caption_def Let_def text_captions_simps
      split: prod.splits list.splits if_splits)

lemma S6_run:
  "map_option (map frame_timestamp \<circ> sink_packets) (send_times accept_all 4 S6_output)
     = Some [10, 21 / 2, 11, 12]
   \<and> map_option (map sei \<circ> sink_packets) (send_times accept_all 4 S6_output)
     = Some [[Sei_caption_frame ''HELLO''], [], [], [Sei_caption_frame ''WORLD'']]
   \<and> map display_duration (caption_head S6_output) = [2, 2]
   \<and> caption_timestamp S6_output = 0
   \<and> map_option caption_timestamp (send_times accept_all 1 S6_output) = Some 12
   \<and> map_option caption_timestamp (send_times accept_all 3 S6_output) = Some 12
   \<and> map_option caption_timestamp (send_times accept_all 4 S6_output) = Some 14"
  by code_simp

text \<open>
  C8. When \<^verbatim>\<open>send_interleaved\<close> hands a packet to the sink with a text caption added, the
  text queue was not empty and \<open>caption_timestamp\<close> was at most the frame's timestamp
  \<open>pts * timebase_num / timebase_den\<close>; the caption is the head of the queue, which is
  removed, and \<open>caption_timestamp\<close> becomes the frame's timestamp plus the display
  duration. In scenario S6, with HELLO and WORLD queued for 2 seconds each, the frame at
  10 carries HELLO and \<open>caption_timestamp\<close> becomes 12; the frames at 10.5 and 11 carry no
  caption and leave it at 12; the frame at 12 carries WORLD.
\<close>

theorem text_caption_timing:
  "(interleaved_packets output = x # rest \<and> send_interleaved parity output = Some output'
      \<and> sink_packets output' = sink_packets output @ [x']
      \<and> text_captions x' \<noteq> text_captions x \<longrightarrow>
      caption_head output \<noteq> [] \<and> caption_timestamp output \<le> frame_timestamp x
      \<and> text_captions x' = text_captions x @ [text_line (hd (caption_head output))]
      \<and> caption_timestamp output'
          = frame_timestamp x + display_duration (hd (caption_head output))
      \<and> caption_head output' = tl (caption_head output))
   \<and> map_option (map frame_timestamp \<circ> sink_packets) (send_times accept_all 4 S6_output)
       = Some [10, 21 / 2, 11, 12]
   \<and> map_option (map sei \<circ> sink_packets) (send_times accept_all 4 S6_output)
       = Some [[Sei_caption_frame ''HELLO''], [], [], [Sei_caption_frame ''WORLD'']]
   \<and> map display_duration (caption_head S6_output) = [2, 2]
   \<and> caption_timestamp S6_output = 0
   \<and> map_option caption_timestamp (send_times accept_all 1 S6_output) = Some 12
   \<and> map_option caption_timestamp (send_times accept_all 3 S6_output) = Some 12
   \<and> map_option caption_timestamp (send_times accept_all 4 S6_output) = Some 14"
  using text_caption_only_when_due [of "output" x rest parity output' x'] S6_run by blast

theorem text_caption_timing_witness:
  "caption_head S6_output \<noteq> []
   \<and> caption_timestamp S6_output \<le> frame_timestamp (hd (interleaved_packets S6_output))
   \<and> caption_timestamp (the (send_interleaved accept_all S6_output))
       = frame_timestamp (hd (interleaved_packets S6_output))
         + display_duration (hd (caption_head S6_output))"
proof -
  let ?x = "hd (interleaved_packets S6_output)"
  let ?o = "the (send_interleaved accept_all S6_output)"
  have a: "interleaved_packets S6_output = ?x # tl (interleaved_packets S6_output)" by code_simp
  have b: "send_interleaved accept_all S6_output = Some ?o" by code_simp
  have c: "sink_packets ?o = sink_packets S6_output @ [last (sink_packets ?o)]" by code_simp
  have d: "text_captions (last (sink_packets ?o)) \<noteq> text_captions ?x" by code_simp
  from text_caption_timing [of S6_output ?x "tl (interleaved_packets S6_output)" accept_all ?o
      "last (sink_packets ?o)"] a b c d
  show ?thesis by blast
qed

end
